theory Spec2Isabelle
  imports Complex_Main
begin

section \<open>JavaScript numbers\<close>

text \<open>
  Every quantity of \<^verbatim>\<open>main.js\<close> is a JavaScript number. The model keeps the one
  non-numeric value that the program really produces, \<open>NaN\<close>, and idealises every other
  number as a real: rounding and overflow are left out. \<open>NaN\<close> is absorbing for the
  arithmetic operations and makes every comparison false, as in the language.
  Infinity is not represented: from finite operands it arises only by overflow or by a
  division by zero, and the divisors of the program are the constants 1000 and
  \<open>playerRadius\<close>, a length already tested to exceed \<open>WORLD_RADIUS\<close>, the guarded
  \<open>length() || 1\<close> of \<open>normalize\<close>, and the duration of a camera shake (350 at its only
  call). A division by zero is given the value \<open>NaN\<close>.
\<close>

datatype jsnum = NaN | Num real

instantiation jsnum :: "{plus, minus, times, inverse, ord}"
begin

fun plus_jsnum :: "jsnum \<Rightarrow> jsnum \<Rightarrow> jsnum" where
  "Num a + Num b = Num (a + b)"
| "_ + _ = NaN"

fun minus_jsnum :: "jsnum \<Rightarrow> jsnum \<Rightarrow> jsnum" where
  "Num a - Num b = Num (a - b)"
| "_ - _ = NaN"

fun times_jsnum :: "jsnum \<Rightarrow> jsnum \<Rightarrow> jsnum" where
  "Num a * Num b = Num (a * b)"
| "_ * _ = NaN"

fun divide_jsnum :: "jsnum \<Rightarrow> jsnum \<Rightarrow> jsnum" where
  "divide (Num a) (Num b) = (if b = 0 then NaN else Num (a / b))"
| "divide _ _ = NaN"

fun inverse_jsnum :: "jsnum \<Rightarrow> jsnum" where
  "inverse (Num a) = (if a = 0 then NaN else Num (inverse a))"
| "inverse NaN = NaN"

fun less_jsnum :: "jsnum \<Rightarrow> jsnum \<Rightarrow> bool" where
  "Num a < Num b = (a < b)"
| "(_::jsnum) < _ = False"

fun less_eq_jsnum :: "jsnum \<Rightarrow> jsnum \<Rightarrow> bool" where
  "Num a \<le> Num b = (a \<le> b)"
| "(_::jsnum) \<le> _ = False"

instance ..

end

text \<open>Truthiness of a number, as \<open>||\<close> tests it: \<open>0\<close> and \<open>NaN\<close> are falsy.\<close>

fun truthy :: "jsnum \<Rightarrow> bool" where
  "truthy (Num a) = (a \<noteq> 0)"
| "truthy NaN = False"

fun is_num :: "jsnum \<Rightarrow> bool" where
  "is_num (Num a) = True"
| "is_num NaN = False"

text \<open>\<open>ToNumber\<close> of an argument that may be \<open>undefined\<close> (\<open>None\<close>).\<close>

fun toNumber :: "jsnum option \<Rightarrow> jsnum" where
  "toNumber None = NaN"
| "toNumber (Some a) = a"

fun Math_min :: "jsnum \<Rightarrow> jsnum \<Rightarrow> jsnum" where
  "Math_min (Num a) (Num b) = Num (min a b)"
| "Math_min _ _ = NaN"

fun Math_sqrt :: "jsnum \<Rightarrow> jsnum" where
  "Math_sqrt (Num a) = (if a < 0 then NaN else Num (sqrt a))"
| "Math_sqrt NaN = NaN"

fun Math_cos :: "jsnum \<Rightarrow> jsnum" where
  "Math_cos (Num a) = Num (cos a)"
| "Math_cos NaN = NaN"

fun Math_sin :: "jsnum \<Rightarrow> jsnum" where
  "Math_sin (Num a) = Num (sin a)"
| "Math_sin NaN = NaN"

text \<open>\<open>Math.pow\<close> is used with the base 0.8 only; for a positive base it is \<open>powr\<close>.\<close>

fun Math_pow :: "real \<Rightarrow> jsnum \<Rightarrow> jsnum" where
  "Math_pow b (Num a) = Num (b powr a)"
| "Math_pow b NaN = NaN"

definition Math_PI :: jsnum where
  "Math_PI = Num pi"

section \<open>Vectors\<close>

text \<open>
  Modelled from the spec: the \<open>Vector3\<close> operations belong to the three.js library, which
  \<^verbatim>\<open>main.js\<close> imports from a CDN; their code is not part of the repository. The spec
  lists them (add, scale, length, normalize, cross) and fixes the one case that matters:
  normalizing a zero-length vector returns the zero vector, which is what the library's
  \<open>divideScalar(length() || 1)\<close> does. Each operation that mutates its receiver returns
  the new value here.
\<close>

datatype vec3 = Vector3 (vx: jsnum) (vy: jsnum) (vz: jsnum)

definition zero_vec :: vec3 where
  "zero_vec = Vector3 (Num 0) (Num 0) (Num 0)"

definition set_x :: "vec3 \<Rightarrow> jsnum \<Rightarrow> vec3" where
  "set_x v a = Vector3 a (vy v) (vz v)"

definition set_y :: "vec3 \<Rightarrow> jsnum \<Rightarrow> vec3" where
  "set_y v a = Vector3 (vx v) a (vz v)"

definition set_z :: "vec3 \<Rightarrow> jsnum \<Rightarrow> vec3" where
  "set_z v a = Vector3 (vx v) (vy v) a"

definition addScaledVector :: "vec3 \<Rightarrow> vec3 \<Rightarrow> jsnum \<Rightarrow> vec3" where
  "addScaledVector u v s = Vector3 (vx u + vx v * s) (vy u + vy v * s) (vz u + vz v * s)"

definition multiplyScalar :: "vec3 \<Rightarrow> jsnum \<Rightarrow> vec3" where
  "multiplyScalar v s = Vector3 (vx v * s) (vy v * s) (vz v * s)"

definition divideScalar :: "vec3 \<Rightarrow> jsnum \<Rightarrow> vec3" where
  "divideScalar v s = multiplyScalar v (Num 1 / s)"

definition length_vec :: "vec3 \<Rightarrow> jsnum" where
  "length_vec v = Math_sqrt (vx v * vx v + vy v * vy v + vz v * vz v)"

text \<open>
  Modelled from the spec: \<open>Vector3.normalize\<close> of three.js, absent from the repository. A
  length that is falsy (0 or \<open>NaN\<close>) is replaced by 1, so the zero vector is returned as it
  is and nothing is divided by zero.
\<close>

definition normalize :: "vec3 \<Rightarrow> vec3" where
  "normalize v = divideScalar v (if truthy (length_vec v) then length_vec v else Num 1)"

definition setLength :: "vec3 \<Rightarrow> jsnum \<Rightarrow> vec3" where
  "setLength v l = multiplyScalar (normalize v) l"

definition crossVectors :: "vec3 \<Rightarrow> vec3 \<Rightarrow> vec3" where
  "crossVectors a b =
     Vector3 (vy a * vz b - vz a * vy b) (vz a * vx b - vx a * vz b) (vx a * vy b - vy a * vx b)"

definition distanceToSquared :: "vec3 \<Rightarrow> vec3 \<Rightarrow> jsnum" where
  "distanceToSquared u v =
     (let dx = vx u - vx v; dy = vy u - vy v; dz = vz u - vz v
      in dx * dx + dy * dy + dz * dz)"

definition lerp :: "vec3 \<Rightarrow> vec3 \<Rightarrow> jsnum \<Rightarrow> vec3" where
  "lerp u v alpha =
     Vector3 (vx u + (vx v - vx u) * alpha) (vy u + (vy v - vy u) * alpha)
       (vz u + (vz v - vz u) * alpha)"

section \<open>The game state\<close>

text \<open>
  The module-level variables of \<^verbatim>\<open>main.js\<close> and the parts of the host they reach:
  the pending animation-frame callbacks, the pending timeouts, the clock and the random
  generator. The last two are sequences of readings, consumed in order. Rendering, the
  scene graph and the score label hold no state that the simulation reads back and are
  left out; the orientation that \<open>lookAt\<close> gives the camera is supplied to the motion
  update as its heading argument.
\<close>

record mesh =
  position :: vec3

record obstacle = mesh +
  rotation_y :: jsnum
  phase :: jsnum
  radius :: jsnum
  speed :: jsnum

text \<open>The variables that the closure \<open>tick\<close> of \<open>shakeCamera\<close> captures.\<close>

record tick_closure =
  tick_start :: jsnum
  tick_orig :: vec3
  tick_amount :: jsnum
  tick_ms :: jsnum

datatype callback = Animate | Tick tick_closure

datatype timer = SpawnItems nat | RestoreMessage string

record game =
  camera_position :: vec3
  player_position :: vec3
  player_rolls :: "(vec3 \<times> jsnum) list"
  items :: "mesh list"
  obstacles :: "obstacle list"
  keys :: "string \<Rightarrow> bool"
  velocity :: vec3
  score :: int
  started :: bool
  lastTime :: "jsnum option"
  message :: string
  shakeTimeout :: nat
  frame_callbacks :: "(nat \<times> callback) list"
  next_handle :: nat
  timeouts :: "(nat \<times> timer) list"
  clock :: "nat \<Rightarrow> jsnum"
  clock_reads :: nat
  random :: "nat \<Rightarrow> jsnum"
  random_reads :: nat

definition playerRadius :: jsnum where
  "playerRadius = Num 0.8"

definition ITEM_COUNT :: nat where
  "ITEM_COUNT = 8"

definition WORLD_RADIUS :: jsnum where
  "WORLD_RADIUS = Num 40"

subsection \<open>The host\<close>

definition performance_now :: "game \<Rightarrow> jsnum \<times> game" where
  "performance_now s = (clock s (clock_reads s), s\<lparr>clock_reads := Suc (clock_reads s)\<rparr>)"

definition Math_random :: "game \<Rightarrow> jsnum \<times> game" where
  "Math_random s = (random s (random_reads s), s\<lparr>random_reads := Suc (random_reads s)\<rparr>)"

definition requestAnimationFrame :: "callback \<Rightarrow> game \<Rightarrow> nat \<times> game" where
  "requestAnimationFrame cb s =
     (next_handle s,
      s\<lparr>frame_callbacks := frame_callbacks s @ [(next_handle s, cb)],
        next_handle := Suc (next_handle s)\<rparr>)"

definition cancelAnimationFrame :: "nat \<Rightarrow> game \<Rightarrow> game" where
  "cancelAnimationFrame h s =
     s\<lparr>frame_callbacks := filter (\<lambda>e. fst e \<noteq> h) (frame_callbacks s)\<rparr>"

definition setTimeout :: "timer \<Rightarrow> nat \<Rightarrow> game \<Rightarrow> game" where
  "setTimeout f ms s = s\<lparr>timeouts := timeouts s @ [(ms, f)]\<rparr>"

subsection \<open>Spawning\<close>

definition randomPoint :: "jsnum \<Rightarrow> game \<Rightarrow> vec3 \<times> game" where
  "randomPoint rad s =
     (let (u, s1) = Math_random s;
          r = Math_sqrt u * rad;
          (w, s2) = Math_random s1;
          t = w * Math_PI * Num 2
      in (Vector3 (Math_cos t * r) (Num 0) (Math_sin t * r), s2))"

fun spawnItems :: "nat \<Rightarrow> game \<Rightarrow> game" where
  "spawnItems 0 s = s"
| "spawnItems (Suc n) s =
     (let (pos, s1) = randomPoint (WORLD_RADIUS * Num 0.6) s;
          m = \<lparr>position = Vector3 (vx pos) (Num 0.6) (vz pos)\<rparr>
      in spawnItems n (s1\<lparr>items := items s1 @ [m]\<rparr>))"

fun spawnObstacles :: "nat \<Rightarrow> game \<Rightarrow> game" where
  "spawnObstacles 0 s = s"
| "spawnObstacles (Suc n) s =
     (let (pos, s1) = randomPoint (WORLD_RADIUS * Num 0.8) s;
          (a, s2) = Math_random s1;
          (b, s3) = Math_random s2;
          (c, s4) = Math_random s3;
          ob = \<lparr>position = Vector3 (vx pos) (Num 1) (vz pos), rotation_y = Num 0,
                phase = a * Math_PI * Num 2, radius = Num 6 + b * Num 10,
                speed = Num 0.6 + c * Num 0.8\<rparr>
      in spawnObstacles n (s4\<lparr>obstacles := obstacles s4 @ [ob]\<rparr>))"

text \<open>
  \<open>init\<close>, without the scene: the state in which the page waits for the start button.
  The text of the message element comes from the page.
\<close>

definition init :: "string \<Rightarrow> (nat \<Rightarrow> jsnum) \<Rightarrow> (nat \<Rightarrow> jsnum) \<Rightarrow> game" where
  "init msg clk rnd =
     spawnObstacles 4 (spawnItems ITEM_COUNT
       \<lparr>camera_position = Vector3 (Num 0) (Num 8) (Num 12),
        player_position = Vector3 (Num 0) playerRadius (Num 0),
        player_rolls = [], items = [], obstacles = [], keys = (\<lambda>k. False),
        velocity = zero_vec, score = 0, started = False, lastTime = Some (Num 0),
        message = msg, shakeTimeout = 0, frame_callbacks = [], next_handle = 1,
        timeouts = [], clock = clk, clock_reads = 0, random = rnd, random_reads = 0\<rparr>)"

section \<open>The simulation\<close>

subsection \<open>Motion\<close>

text \<open>
  \<open>updatePlayer(dt)\<close>. The argument \<open>heading\<close> is what \<open>camera.getWorldDirection\<close>
  writes into \<open>forward\<close>. The visual roll is recorded as the list of rotations applied
  to the player's mesh.
\<close>

definition updatePlayer :: "jsnum \<Rightarrow> vec3 \<Rightarrow> game \<Rightarrow> game" where
  "updatePlayer dt heading s =
     (let turnSpeed = Num 10;
          accel = Num 18;
          inputX = Num 0;
          inputZ = Num 0;
          inputZ = (if keys s ''KeyW'' \<or> keys s ''ArrowUp'' then inputZ - Num 1 else inputZ);
          inputZ = (if keys s ''KeyS'' \<or> keys s ''ArrowDown'' then inputZ + Num 1 else inputZ);
          inputX = (if keys s ''KeyA'' \<or> keys s ''ArrowLeft'' then inputX - Num 1 else inputX);
          inputX = (if keys s ''KeyD'' \<or> keys s ''ArrowRight'' then inputX + Num 1 else inputX);
          forward = heading;
          forward = set_y forward (Num 0);
          forward = normalize forward;
          right = normalize (crossVectors (Vector3 (Num 0) (Num 1) (Num 0)) forward);
          force = zero_vec;
          force = addScaledVector force forward (inputZ * accel);
          force = addScaledVector force right (inputX * accel);
          v = addScaledVector (velocity s) force dt;
          v = multiplyScalar v (Math_pow 0.8 (dt * Num 10));
          maxSpeed = Num 10;
          v = (if length_vec v > maxSpeed then setLength v maxSpeed else v);
          p = addScaledVector (player_position s) v dt;
          p = set_y p playerRadius;
          dist = Math_sqrt (vx p * vx p + vz p * vz p);
          (p, v) = (if dist > WORLD_RADIUS
                    then (set_z (set_x p (vx p * (WORLD_RADIUS / dist)))
                                (vz p * (WORLD_RADIUS / dist)),
                          multiplyScalar v (Num 0.3))
                    else (p, v));
          travel = length_vec v * dt;
          rolls = (if travel > Num 0.0001
                   then player_rolls s @
                          [(normalize (crossVectors (Vector3 (Num 0) (Num 1) (Num 0)) v),
                            travel / playerRadius)]
                   else player_rolls s)
      in s\<lparr>velocity := v, player_position := p, player_rolls := rolls\<rparr>)"

subsection \<open>Hazard kinematics\<close>

definition move_obstacle :: "jsnum \<Rightarrow> obstacle \<Rightarrow> obstacle" where
  "move_obstacle t ob =
     (let x = Math_cos (t * speed ob + phase ob) * radius ob;
          z = Math_sin (t * speed ob + phase ob) * radius ob;
          ob = ob\<lparr>position := Vector3 x (Num 1) z\<rparr>;
          ob = ob\<lparr>position :=
                 set_y (position ob) (Num 1 + Math_sin (t * speed ob + phase ob * Num 0.3) * Num 0.5)\<rparr>
      in ob\<lparr>rotation_y := t * speed ob\<rparr>)"

text \<open>\<open>updateObstacles(dt)\<close> ignores its argument and reads the clock.\<close>

definition updateObstacles :: "jsnum \<Rightarrow> game \<Rightarrow> game" where
  "updateObstacles dt s =
     (let (now, s) = performance_now s;
          t = now / Num 1000
      in s\<lparr>obstacles := map (move_obstacle t) (obstacles s)\<rparr>)"

subsection \<open>Feedback: message flash and camera shake\<close>

definition flashMessage :: "string \<Rightarrow> nat \<Rightarrow> game \<Rightarrow> game" where
  "flashMessage text ms s =
     (let prev = message s;
          s = s\<lparr>message := text\<rparr>
      in setTimeout (RestoreMessage prev) ms s)"

text \<open>
  The closure \<open>tick\<close>. A duration of 0 would make the quotient an infinity, which the
  number model lacks: statements about a shake take a positive duration.
\<close>

definition tick :: "tick_closure \<Rightarrow> game \<Rightarrow> game" where
  "tick c s =
     (let (now, s) = performance_now s;
          t = (now - tick_start c) / tick_ms c
      in if t \<ge> Num 1 then s\<lparr>camera_position := tick_orig c\<rparr>
         else
           (let f = Num 1 - t;
                (r, s) = Math_random s;
                s = s\<lparr>camera_position :=
                       set_x (camera_position s) (vx (tick_orig c) + (r - Num 0.5) * tick_amount c * f)\<rparr>;
                (r, s) = Math_random s;
                s = s\<lparr>camera_position :=
                       set_y (camera_position s) (vy (tick_orig c) + (r - Num 0.5) * tick_amount c * f)\<rparr>;
                (r, s) = Math_random s;
                s = s\<lparr>camera_position :=
                       set_z (camera_position s) (vz (tick_orig c) + (r - Num 0.5) * tick_amount c * f)\<rparr>;
                (h, s) = requestAnimationFrame (Tick c) s
            in s\<lparr>shakeTimeout := h\<rparr>))"

definition shakeCamera :: "jsnum \<Rightarrow> jsnum \<Rightarrow> game \<Rightarrow> game" where
  "shakeCamera amount ms s =
     (let (start, s) = performance_now s;
          orig = camera_position s;
          s = cancelAnimationFrame (shakeTimeout s) s
      in tick \<lparr>tick_start = start, tick_orig = orig, tick_amount = amount, tick_ms = ms\<rparr> s)"

subsection \<open>Collisions\<close>

definition collect :: "nat \<Rightarrow> game \<Rightarrow> game" where
  "collect i s =
     (let s = s\<lparr>items := take i (items s) @ drop (Suc i) (items s)\<rparr>;
          s = s\<lparr>score := score s + 10\<rparr>;
          s = setTimeout (SpawnItems 1) 800 s
      in flashMessage ''+10!'' 700 s)"

text \<open>
  The loop \<open>for (let i = items.length - 1; i >= 0; i--)\<close>: \<open>item_loop n\<close> runs the
  iterations \<open>i = n - 1, ..., 0\<close>. Reading \<open>items[i]\<close> beyond the end gives \<open>undefined\<close>,
  whose \<open>position\<close> is a TypeError: the result \<open>None\<close>.
\<close>

fun item_loop :: "nat \<Rightarrow> game \<Rightarrow> game option" where
  "item_loop 0 s = Some s"
| "item_loop (Suc i) s =
     (if i < length (items s) then
        (let it = items s ! i;
             d2 = distanceToSquared (player_position s) (position it);
             r = playerRadius + Num 0.9
         in item_loop i (if d2 < r * r then collect i s else s))
      else None)"

definition checkItemCollisions :: "game \<Rightarrow> game option" where
  "checkItemCollisions s = item_loop (length (items s)) s"

definition hit :: "game \<Rightarrow> game" where
  "hit s =
     (let s = s\<lparr>player_position := Vector3 (Num 0) playerRadius (Num 0)\<rparr>;
          s = s\<lparr>velocity := Vector3 (Num 0) (Num 0) (Num 0)\<rparr>;
          s = s\<lparr>score := max 0 (score s - 20)\<rparr>;
          s = flashMessage ''Ouch! -20'' 900 s
      in shakeCamera (Num 0.35) (Num 350) s)"

fun obstacle_loop :: "obstacle list \<Rightarrow> game \<Rightarrow> game" where
  "obstacle_loop [] s = s"
| "obstacle_loop (ob # obs) s =
     (let d2 = distanceToSquared (player_position s) (position ob);
          r = playerRadius + Num 1.2
      in obstacle_loop obs (if d2 < r * r then hit s else s))"

definition checkObstacleCollisions :: "game \<Rightarrow> game" where
  "checkObstacleCollisions s = obstacle_loop (obstacles s) s"

subsection \<open>Camera and frame loop\<close>

definition updateCamera :: "game \<Rightarrow> game" where
  "updateCamera s =
     (let desired = Vector3 (vx (player_position s)) (vy (player_position s) + Num 6.5)
                      (vz (player_position s) + Num 11)
      in s\<lparr>camera_position := lerp (camera_position s) desired (Num 0.08)\<rparr>)"

text \<open>The step of a frame, line 134; the timestamp is \<open>None\<close> when \<open>animate\<close> is called without one.\<close>

definition frame_dt :: "jsnum option \<Rightarrow> jsnum option \<Rightarrow> jsnum" where
  "frame_dt now prev = Math_min (Num 0.05) ((toNumber now - toNumber prev) / Num 1000)"

definition animate :: "jsnum option \<Rightarrow> vec3 \<Rightarrow> game \<Rightarrow> game option" where
  "animate now heading s =
     (if \<not> started s then Some s
      else
        (let dt = frame_dt now (lastTime s);
             s = s\<lparr>lastTime := now\<rparr>;
             s = updatePlayer dt heading s;
             s = updateObstacles dt s
         in case checkItemCollisions s of
              None \<Rightarrow> None
            | Some s \<Rightarrow>
                (let s = checkObstacleCollisions s;
                     s = updateCamera s
                 in Some (snd (requestAnimationFrame Animate s)))))"

definition startGame :: "vec3 \<Rightarrow> game \<Rightarrow> game option" where
  "startGame heading s =
     (if started s then Some s
      else
        (let s = s\<lparr>started := True\<rparr>;
             s = s\<lparr>score := 0\<rparr>;
             s = s\<lparr>message := ''Go! Collect cubes!''\<rparr>;
             s = s\<lparr>player_position := Vector3 (Num 0) playerRadius (Num 0)\<rparr>;
             s = s\<lparr>velocity := Vector3 (Num 0) (Num 0) (Num 0)\<rparr>;
             s = (if length (items s) < ITEM_COUNT
                  then spawnItems (ITEM_COUNT - length (items s)) s else s);
             (t, s) = performance_now s;
             s = s\<lparr>lastTime := Some t\<rparr>
         in animate None heading s))"

text \<open>
  The host runs a pending animation-frame callback by taking it off the list and calling
  it with the frame's timestamp.
\<close>

definition run_callback :: "nat \<Rightarrow> jsnum \<Rightarrow> vec3 \<Rightarrow> game \<Rightarrow> game option" where
  "run_callback h ts heading s =
     (case map_of (frame_callbacks s) h of
        None \<Rightarrow> Some s
      | Some cb \<Rightarrow>
          (let s = cancelAnimationFrame h s
           in case cb of Animate \<Rightarrow> animate (Some ts) heading s
                       | Tick c \<Rightarrow> Some (tick c s)))"

section \<open>Notions used by the statements\<close>

text \<open>
  The collision tests as the claims word them: squared distance below the square of
  \<open>playerRadius\<close> plus the padding (0.9 for a pickup, 1.2 for a hazard).
\<close>

definition pickup_in_range :: "vec3 \<Rightarrow> mesh \<Rightarrow> bool" where
  "pickup_in_range p it =
     (distanceToSquared p (position it) < (playerRadius + Num 0.9) * (playerRadius + Num 0.9))"

definition hazard_in_range :: "vec3 \<Rightarrow> obstacle \<Rightarrow> bool" where
  "hazard_in_range p ob =
     (distanceToSquared p (position ob) < (playerRadius + Num 1.2) * (playerRadius + Num 1.2))"

text \<open>The pending timeouts that will spawn pickups.\<close>

definition spawn_timers :: "game \<Rightarrow> (nat \<times> timer) list" where
  "spawn_timers s =
     filter (\<lambda>e. case snd e of SpawnItems n \<Rightarrow> True | RestoreMessage m \<Rightarrow> False) (timeouts s)"

text \<open>Where a hazard hit and a session start put the player.\<close>

definition arena_centre :: vec3 where
  "arena_centre = Vector3 (Num 0) playerRadius (Num 0)"

text \<open>
  The closed form of claim C4, in the spec's words: \<open>x = cos(t speed + phase) orbitRadius\<close>,
  \<open>z = sin(t speed + phase) orbitRadius\<close>,
  \<open>y = baseHeight + sin(t speed + phase 0.3) bobAmplitude\<close>.
\<close>

definition baseHeight :: jsnum where
  "baseHeight = Num 1"

definition bobAmplitude :: jsnum where
  "bobAmplitude = Num 0.5"

definition hazard_position :: "jsnum \<Rightarrow> jsnum \<Rightarrow> jsnum \<Rightarrow> jsnum \<Rightarrow> vec3" where
  "hazard_position ph orbitRadius sp t =
     Vector3 (Math_cos (t * sp + ph) * orbitRadius)
       (baseHeight + Math_sin (t * sp + ph * Num 0.3) * bobAmplitude)
       (Math_sin (t * sp + ph) * orbitRadius)"

text \<open>A vector all of whose components are numbers.\<close>

definition finite_vec :: "vec3 \<Rightarrow> bool" where
  "finite_vec v = (is_num (vx v) \<and> is_num (vy v) \<and> is_num (vz v))"

text \<open>The distance from the arena centre on the ground plane, as line 183 computes it.\<close>

definition horizontal_distance :: "vec3 \<Rightarrow> jsnum" where
  "horizontal_distance p = Math_sqrt (vx p * vx p + vz p * vz p)"

section \<open>Sample states\<close>

text \<open>
  A running session with the player at \<open>(10, playerRadius, 0)\<close> and two hazards at
  distance 0 and 0.5 from it on the ground plane: both are within the hazard radius 2.
\<close>

definition two_hazards :: game where
  "two_hazards =
     \<lparr>camera_position = Vector3 (Num 10) (Num 7.3) (Num 11),
      player_position = Vector3 (Num 10) playerRadius (Num 0),
      player_rolls = [], items = [],
      obstacles =
        [\<lparr>position = Vector3 (Num 10) (Num 1) (Num 0), rotation_y = Num 0,
          phase = Num 0, radius = Num 10, speed = Num 1\<rparr>,
         \<lparr>position = Vector3 (Num 10.5) (Num 1) (Num 0), rotation_y = Num 0,
          phase = Num 0, radius = Num 10.5, speed = Num 1\<rparr>],
      keys = (\<lambda>k. False), velocity = Vector3 (Num 3) (Num 0) (Num 0), score = 100,
      started = True, lastTime = Some (Num 0), message = '''', shakeTimeout = 0,
      frame_callbacks = [(1, Animate)], next_handle = 2, timeouts = [],
      clock = (\<lambda>n. Num 0), clock_reads = 0, random = (\<lambda>n. Num 0.5), random_reads = 0\<rparr>"

text \<open>
  A running session whose camera rests at \<open>(0, 8, 12)\<close>. The clock reads 0, 0, 100, 100 and
  then 500; the random generator returns 0.
\<close>

definition two_shakes :: game where
  "two_shakes =
     \<lparr>camera_position = Vector3 (Num 0) (Num 8) (Num 12),
      player_position = Vector3 (Num 0) playerRadius (Num 0),
      player_rolls = [], items = [], obstacles = [],
      keys = (\<lambda>k. False), velocity = Vector3 (Num 0) (Num 0) (Num 0), score = 0,
      started = True, lastTime = Some (Num 0), message = '''', shakeTimeout = 0,
      frame_callbacks = [(1, Animate)], next_handle = 2, timeouts = [],
      clock = (\<lambda>n. Num (if n < 2 then 0 else if n < 4 then 100 else 500)), clock_reads = 0,
      random = (\<lambda>n. Num 0), random_reads = 0\<rparr>"

text \<open>The page after \<open>init\<close>, before the start button is pressed.\<close>

definition page_loaded :: game where
  "page_loaded = init ''Press Start'' (\<lambda>n. Num (real n)) (\<lambda>n. Num 0.5)"

text \<open>Two camera headings: along the ground, and straight down.\<close>

definition looking_north :: vec3 where
  "looking_north = Vector3 (Num 0) (Num 0) (Num (- 1))"

definition looking_down :: vec3 where
  "looking_down = Vector3 (Num 0) (Num (- 1)) (Num 0)"

section \<open>Properties\<close>

subsection \<open>Pickups\<close>

lemma collect_fields:
  "items (collect i s) = take i (items s) @ drop (Suc i) (items s)"
  "score (collect i s) = score s + 10"
  "player_position (collect i s) = player_position s"
  "spawn_timers (collect i s) = spawn_timers s @ [(800, SpawnItems 1)]"
  by (simp_all add: collect_def flashMessage_def setTimeout_def spawn_timers_def Let_def)

lemma item_loop_filter:
  "n \<le> length (items s) \<Longrightarrow>
   \<exists>s'. item_loop n s = Some s' \<and>
     items s' = filter (\<lambda>it. \<not> pickup_in_range (player_position s) it) (take n (items s)) @ drop n (items s) \<and>
     score s' = score s + 10 * int (length (filter (pickup_in_range (player_position s)) (take n (items s)))) \<and>
     spawn_timers s' = spawn_timers s @
        replicate (length (filter (pickup_in_range (player_position s)) (take n (items s)))) (800, SpawnItems 1) \<and>
     player_position s' = player_position s"
proof (induction n arbitrary: s)
  case 0
  then show ?case by simp
next
  case (Suc i)
  then have i: "i < length (items s)" by simp
  let ?p = "player_position s"
  let ?it = "items s ! i"
  have tk: "take (Suc i) (items s) = take i (items s) @ [?it]"
    using i by (simp add: take_Suc_conv_app_nth)
  show ?case
  proof (cases "pickup_in_range ?p ?it")
    case True
    let ?s1 = "collect i s"
    have step: "item_loop (Suc i) s = item_loop i ?s1"
      using i True by (simp add: pickup_in_range_def Let_def)
    have len: "i \<le> length (items ?s1)" using i by (simp add: collect_fields)
    from Suc.IH[OF len] obtain s' where
      r: "item_loop i ?s1 = Some s'"
      and it: "items s' = filter (\<lambda>it. \<not> pickup_in_range (player_position ?s1) it) (take i (items ?s1)) @ drop i (items ?s1)"
      and sc: "score s' = score ?s1 + 10 * int (length (filter (pickup_in_range (player_position ?s1)) (take i (items ?s1))))"
      and tm: "spawn_timers s' = spawn_timers ?s1 @ replicate (length (filter (pickup_in_range (player_position ?s1)) (take i (items ?s1)))) (800, SpawnItems 1)"
      and pp: "player_position s' = player_position ?s1"
      by blast
    have tk1: "take i (items ?s1) = take i (items s)" using i by (simp add: collect_fields)
    have dr1: "drop i (items ?s1) = drop (Suc i) (items s)" using i by (simp add: collect_fields)
    note pq = collect_fields(3)[of i s]
    show ?thesis
      using r it[unfolded tk1 dr1 pq] sc[unfolded tk1 pq] tm[unfolded tk1 pq] pp[unfolded pq] True
      by (simp add: step tk collect_fields(2,4) replicate_append_same del: item_loop.simps)
  next
    case False
    have step: "item_loop (Suc i) s = item_loop i s"
      using i False by (simp add: pickup_in_range_def Let_def)
    have len: "i \<le> length (items s)" using i by simp
    from Suc.IH[OF len] obtain s' where
      r: "item_loop i s = Some s'"
      and it: "items s' = filter (\<lambda>it. \<not> pickup_in_range ?p it) (take i (items s)) @ drop i (items s)"
      and sc: "score s' = score s + 10 * int (length (filter (pickup_in_range ?p) (take i (items s))))"
      and tm: "spawn_timers s' = spawn_timers s @ replicate (length (filter (pickup_in_range ?p) (take i (items s)))) (800, SpawnItems 1)"
      and pp: "player_position s' = ?p"
      by blast
    have dr: "drop i (items s) = ?it # drop (Suc i) (items s)"
      using i by (simp add: Cons_nth_drop_Suc)
    show ?thesis
      using r it sc tm pp False
      by (simp add: step tk dr del: item_loop.simps)
  qed
qed

text \<open>
  Claim C3. One call of \<open>checkItemCollisions\<close> tests every pickup against the player,
  from the last index down, and never reads past the end of the list (it returns
  \<open>Some\<close>). The pickups left are exactly those out of range, in their order; the score
  grows by 10 for each pickup in range; for each of them one timeout of 800 ms that spawns
  one pickup is scheduled, and no pickup is added during the call.
\<close>

theorem checkItemCollisions_collects:
  "\<exists>s'. checkItemCollisions s = Some s' \<and>
     items s' = filter (\<lambda>it. \<not> pickup_in_range (player_position s) it) (items s) \<and>
     score s' = score s + 10 * int (length (filter (pickup_in_range (player_position s)) (items s))) \<and>
     spawn_timers s' = spawn_timers s @
        replicate (length (filter (pickup_in_range (player_position s)) (items s))) (800, SpawnItems 1)"
  using item_loop_filter[of "length (items s)" s] by (auto simp: checkItemCollisions_def)

subsection \<open>Hazards\<close>

lemma tick_fields:
  "score (tick c s) = score s" "player_position (tick c s) = player_position s"
  "velocity (tick c s) = velocity s" "obstacles (tick c s) = obstacles s"
  "items (tick c s) = items s" "timeouts (tick c s) = timeouts s" "message (tick c s) = message s"
  by (simp_all add: tick_def performance_now_def Math_random_def requestAnimationFrame_def Let_def split: prod.splits)

lemma shakeCamera_fields:
  "score (shakeCamera a m s) = score s" "player_position (shakeCamera a m s) = player_position s"
  "velocity (shakeCamera a m s) = velocity s" "obstacles (shakeCamera a m s) = obstacles s"
  "items (shakeCamera a m s) = items s" "timeouts (shakeCamera a m s) = timeouts s"
  "message (shakeCamera a m s) = message s"
  by (simp_all add: shakeCamera_def tick_fields performance_now_def cancelAnimationFrame_def Let_def split: prod.splits)

lemma hit_fields:
  "score (hit s) = max 0 (score s - 20)"
  "player_position (hit s) = arena_centre"
  "velocity (hit s) = Vector3 (Num 0) (Num 0) (Num 0)"
  "obstacles (hit s) = obstacles s" "items (hit s) = items s"
  by (simp_all add: hit_def shakeCamera_fields flashMessage_def setTimeout_def Let_def arena_centre_def)

lemma obstacle_loop_step:
  "obstacle_loop (ob # obs) s =
     obstacle_loop obs (if hazard_in_range (player_position s) ob then hit s else s)"
  by (simp add: hazard_in_range_def Let_def)

lemma obstacle_loop_miss:
  "filter (hazard_in_range (player_position s)) obs = [] \<Longrightarrow> obstacle_loop obs s = s"
proof (induction obs)
  case Nil
  then show ?case by simp
next
  case (Cons ob obs)
  then show ?case
    by (simp only: obstacle_loop_step) (simp split: if_splits)
qed

lemma obstacle_loop_centre:
  "player_position s = arena_centre \<Longrightarrow> 0 \<le> score s \<Longrightarrow>
   velocity s = Vector3 (Num 0) (Num 0) (Num 0) \<Longrightarrow>
   player_position (obstacle_loop obs s) = arena_centre \<and>
   velocity (obstacle_loop obs s) = Vector3 (Num 0) (Num 0) (Num 0) \<and>
   score (obstacle_loop obs s) =
     max 0 (score s - 20 * int (length (filter (hazard_in_range arena_centre) obs)))"
proof (induction obs arbitrary: s)
  case Nil
  then show ?case by simp
next
  case (Cons ob obs)
  show ?case
  proof (cases "hazard_in_range arena_centre ob")
    case True
    have "player_position (hit s) = arena_centre" "0 \<le> score (hit s)"
      "velocity (hit s) = Vector3 (Num 0) (Num 0) (Num 0)"
      by (simp_all add: hit_fields)
    from Cons.IH[OF this] show ?thesis
      using True Cons.prems by (simp add: obstacle_loop_step hit_fields del: obstacle_loop.simps)
  next
    case False
    from Cons.IH[OF Cons.prems] show ?thesis
      using False Cons.prems by (simp add: obstacle_loop_step del: obstacle_loop.simps)
  qed
qed

lemma obstacle_loop_dropWhile:
  "obstacle_loop obs s =
     (case dropWhile (\<lambda>ob. \<not> hazard_in_range (player_position s) ob) obs of
        [] \<Rightarrow> s
      | ob # rest \<Rightarrow> obstacle_loop rest (hit s))"
proof (induction obs)
  case Nil
  then show ?case by simp
next
  case (Cons ob obs)
  then show ?case
    by (simp add: obstacle_loop_step del: obstacle_loop.simps)
qed

text \<open>
  Claim C2, as amended. A hazard hit puts the player at exactly \<open>(0, playerRadius, 0)\<close>,
  zeroes the velocity and sets the score to \<open>max 0 (score - 20)\<close>. The hazards are tested
  in list order against the player's current position: up to the first hazard in range
  that is the position at the start of the call, after it the reset position. So when no
  hazard is in range of the player nothing changes, and otherwise the final score is the
  old score less one penalty for the first hazard in range of the player and one for each
  later hazard in range of \<open>(0, playerRadius, 0)\<close>, floored at 0.
\<close>

theorem checkObstacleCollisions_hits:
  "player_position (hit s) = arena_centre \<and>
   velocity (hit s) = Vector3 (Num 0) (Num 0) (Num 0) \<and>
   score (hit s) = max 0 (score s - 20) \<and>
   (case dropWhile (\<lambda>ob. \<not> hazard_in_range (player_position s) ob) (obstacles s) of
      [] \<Rightarrow> checkObstacleCollisions s = s
    | ob # rest \<Rightarrow>
        player_position (checkObstacleCollisions s) = arena_centre \<and>
        velocity (checkObstacleCollisions s) = Vector3 (Num 0) (Num 0) (Num 0) \<and>
        score (checkObstacleCollisions s) =
          max 0 (score s - 20 * (1 + int (length (filter (hazard_in_range arena_centre) rest)))))"
proof -
  have "player_position (hit s) = arena_centre" "0 \<le> score (hit s)"
    "velocity (hit s) = Vector3 (Num 0) (Num 0) (Num 0)"
    by (simp_all add: hit_fields)
  note c = obstacle_loop_centre[OF this]
  let ?d = "dropWhile (\<lambda>ob. \<not> hazard_in_range (player_position s) ob) (obstacles s)"
  have loop: "checkObstacleCollisions s = (case ?d of [] \<Rightarrow> s | ob # rest \<Rightarrow> obstacle_loop rest (hit s))"
    unfolding checkObstacleCollisions_def by (rule obstacle_loop_dropWhile)
  show ?thesis
  proof (cases ?d)
    case Nil
    show ?thesis using loop unfolding Nil by (simp add: hit_fields)
  next
    case (Cons ob rest)
    have "checkObstacleCollisions s = obstacle_loop rest (hit s)"
      using loop unfolding Cons by simp
    then show ?thesis
      using c[of rest] unfolding Cons by (simp add: hit_fields)
  qed
qed

lemma two_hazards_in_range:
  "hazard_in_range (player_position two_hazards) (obstacles two_hazards ! 0)"
  "hazard_in_range (player_position two_hazards) (obstacles two_hazards ! 1)"
  "\<not> hazard_in_range arena_centre (obstacles two_hazards ! 1)"
  by (simp_all add: two_hazards_def hazard_in_range_def distanceToSquared_def playerRadius_def arena_centre_def Let_def)

text \<open>The two hazards of the sample state: one penalty, the player at the centre.\<close>

theorem checkObstacleCollisions_hits_witness:
  "score (checkObstacleCollisions two_hazards) = 80 \<and>
   player_position (checkObstacleCollisions two_hazards) = arena_centre \<and>
   velocity (checkObstacleCollisions two_hazards) = Vector3 (Num 0) (Num 0) (Num 0)"
proof -
  have d: "dropWhile (\<lambda>ob. \<not> hazard_in_range (player_position two_hazards) ob) (obstacles two_hazards)
        = obstacles two_hazards ! 0 # [obstacles two_hazards ! 1]"
    using two_hazards_in_range(1) by (simp add: two_hazards_def)
  have f: "filter (hazard_in_range arena_centre) [obstacles two_hazards ! 1] = []"
    using two_hazards_in_range(3) by simp
  have sc: "score two_hazards = 100" by (simp add: two_hazards_def)
  show ?thesis
    using checkObstacleCollisions_hits[of two_hazards]
    unfolding d list.case f sc by simp
qed

text \<open>
  Claim C2 as stated fails: both hazards of the sample state are within the collision
  radius of the player, and the score falls from 100 to 80, not to 60. The second hazard
  is tested against the reset position, from which it is out of range.
\<close>

theorem stacked_penalties_counterexample:
  "hazard_in_range (player_position two_hazards) (obstacles two_hazards ! 0) \<and>
   hazard_in_range (player_position two_hazards) (obstacles two_hazards ! 1) \<and>
   length (obstacles two_hazards) = 2 \<and>
   score two_hazards = 100 \<and>
   score (checkObstacleCollisions two_hazards) = 80 \<and>
   score (checkObstacleCollisions two_hazards) \<noteq> max 0 (score two_hazards - 2 * 20)"
proof -
  have o: "obstacles two_hazards = [obstacles two_hazards ! 0, obstacles two_hazards ! 1]"
    by (simp add: two_hazards_def)
  have sc: "score two_hazards = 100" by (simp add: two_hazards_def)
  have "checkObstacleCollisions two_hazards =
          obstacle_loop [obstacles two_hazards ! 0, obstacles two_hazards ! 1] two_hazards"
    unfolding checkObstacleCollisions_def by (subst o) simp
  also have "\<dots> = obstacle_loop [obstacles two_hazards ! 1] (hit two_hazards)"
    using two_hazards_in_range(1) by (simp add: obstacle_loop_step del: obstacle_loop.simps)
  also have "\<dots> = hit two_hazards"
    using two_hazards_in_range(3)
    by (simp add: obstacle_loop_step hit_fields del: obstacle_loop.simps(2))
  finally have "score (checkObstacleCollisions two_hazards) = 80"
    by (simp add: hit_fields sc)
  then show ?thesis
    using two_hazards_in_range(1,2) sc by (simp add: two_hazards_def)
qed

subsection \<open>Hazard kinematics\<close>

lemma move_obstacle_position:
  "position (move_obstacle t ob) = hazard_position (phase ob) (radius ob) (speed ob) t"
  by (simp add: move_obstacle_def hazard_position_def baseHeight_def bobAmplitude_def set_y_def Let_def)

lemma move_obstacle_parameters:
  "phase (move_obstacle t ob) = phase ob" "radius (move_obstacle t ob) = radius ob"
  "speed (move_obstacle t ob) = speed ob"
  by (simp_all add: move_obstacle_def Let_def)

text \<open>
  Claim C4. After \<open>updateObstacles\<close> the position of every hazard is the closed form of its
  own phase, orbit radius and speed at the time \<open>t\<close>, the clock reading divided by 1000,
  with base height 1 and bob amplitude 0.5; the three parameters are left as they were.
  The position is a function of the parameters and \<open>t\<close> alone, so equal inputs give equal
  output. For parameters and a time that are numbers the components are the real
  expressions of the claim.
\<close>

theorem updateObstacles_closed_form:
  "map position (obstacles (updateObstacles dt s)) =
     map (\<lambda>ob. hazard_position (phase ob) (radius ob) (speed ob) (clock s (clock_reads s) / Num 1000))
       (obstacles s) \<and>
   map phase (obstacles (updateObstacles dt s)) = map phase (obstacles s) \<and>
   map radius (obstacles (updateObstacles dt s)) = map radius (obstacles s) \<and>
   map speed (obstacles (updateObstacles dt s)) = map speed (obstacles s) \<and>
   hazard_position (Num ph) (Num r) (Num sp) (Num t) =
     Vector3 (Num (cos (t * sp + ph) * r)) (Num (1 + sin (t * sp + ph * 0.3) * 0.5))
       (Num (sin (t * sp + ph) * r))"
  by (simp add: updateObstacles_def performance_now_def Let_def move_obstacle_position
      move_obstacle_parameters hazard_position_def baseHeight_def bobAmplitude_def comp_def)

subsection \<open>Arithmetic with \<open>NaN\<close>\<close>

lemma NaN_absorbs [simp]:
  "a + NaN = NaN" "NaN + a = NaN" "a - NaN = NaN" "NaN - a = NaN"
  "a * NaN = NaN" "NaN * a = NaN" "a / NaN = NaN" "NaN / a = NaN"
  by (cases a; simp)+

lemma NaN_compares [simp]:
  "\<not> a < NaN" "\<not> NaN < a" "\<not> a \<le> NaN" "\<not> NaN \<le> a"
  by (cases a; simp)+

lemma is_num_conv: "is_num a = (\<exists>r. a = Num r)"
  by (cases a) simp_all

lemma is_num_arith [simp]:
  "is_num (a + b) = (is_num a \<and> is_num b)"
  "is_num (a - b) = (is_num a \<and> is_num b)"
  "is_num (a * b) = (is_num a \<and> is_num b)"
  "is_num (a / b) = (is_num a \<and> is_num b \<and> b \<noteq> Num 0)"
  "is_num (Math_pow c a) = is_num a"
  by (cases a; cases b; simp)+

lemma finite_vec_Vector3 [simp]:
  "finite_vec (Vector3 a b c) = (is_num a \<and> is_num b \<and> is_num c)"
  by (simp add: finite_vec_def)

lemma finite_vecE:
  assumes "finite_vec v"
  obtains a b c where "v = Vector3 (Num a) (Num b) (Num c)"
  using assms by (cases v) (auto simp: is_num_conv)

subsection \<open>The frame step\<close>

lemma frame_dt_numbers:
  "frame_dt (Some (Num now)) (Some (Num prev)) = Num (min 0.05 ((now - prev) / 1000))"
  by (simp add: frame_dt_def)

lemma frame_dt_undefined: "frame_dt None prev = NaN"
  by (simp add: frame_dt_def)

lemma updatePlayer_NaN:
  "velocity (updatePlayer NaN heading s) = Vector3 NaN NaN NaN"
  "player_position (updatePlayer NaN heading s) = Vector3 NaN playerRadius NaN"
  by (simp_all add: updatePlayer_def Let_def addScaledVector_def multiplyScalar_def
      length_vec_def set_y_def)

lemma updateObstacles_fields:
  "velocity (updateObstacles dt s) = velocity s"
  "player_position (updateObstacles dt s) = player_position s"
  "started (updateObstacles dt s) = started s"
  "items (updateObstacles dt s) = items s"
  by (simp_all add: updateObstacles_def performance_now_def Let_def)

lemma collect_velocity: "velocity (collect i s) = velocity s"
  by (simp add: collect_def flashMessage_def setTimeout_def Let_def)

lemma item_loop_velocity:
  "item_loop n s = Some s' \<Longrightarrow> velocity s' = velocity s"
proof (induction n arbitrary: s)
  case 0
  then show ?case by simp
next
  case (Suc n)
  then show ?case
    by (auto simp: Let_def collect_velocity split: if_splits)
qed

lemma NaN_position_out_of_range:
  "\<not> pickup_in_range (Vector3 NaN a NaN) it" "\<not> hazard_in_range (Vector3 NaN a NaN) ob"
  by (simp_all add: pickup_in_range_def hazard_in_range_def distanceToSquared_def Let_def)

lemma updateCamera_fields:
  "velocity (updateCamera s) = velocity s" "player_position (updateCamera s) = player_position s"
  by (simp_all add: updateCamera_def Let_def)

lemma requestAnimationFrame_fields:
  "velocity (snd (requestAnimationFrame cb s)) = velocity s"
  "player_position (snd (requestAnimationFrame cb s)) = player_position s"
  by (simp_all add: requestAnimationFrame_def)

lemma animate_frame:
  assumes "started s"
  shows "\<exists>s1. checkItemCollisions
                 (updateObstacles (frame_dt now (lastTime s))
                   (updatePlayer (frame_dt now (lastTime s)) heading (s\<lparr>lastTime := now\<rparr>))) = Some s1 \<and>
              animate now heading s =
                Some (snd (requestAnimationFrame Animate (updateCamera (checkObstacleCollisions s1))))"
proof -
  let ?s2 = "updateObstacles (frame_dt now (lastTime s))
                   (updatePlayer (frame_dt now (lastTime s)) heading (s\<lparr>lastTime := now\<rparr>))"
  obtain s1 where s1: "checkItemCollisions ?s2 = Some s1"
    using item_loop_filter[of "length (items ?s2)" ?s2]
    by (auto simp: checkItemCollisions_def)
  show ?thesis
    using assms s1 by (simp add: animate_def Let_def)
qed

lemma animate_undefined:
  assumes "started s"
  shows "\<exists>s'. animate None heading s = Some s' \<and> velocity s' = Vector3 NaN NaN NaN \<and>
              player_position s' = Vector3 NaN playerRadius NaN"
proof -
  let ?s2 = "updateObstacles NaN (updatePlayer NaN heading (s\<lparr>lastTime := None\<rparr>))"
  have v2: "velocity ?s2 = Vector3 NaN NaN NaN"
    and p2: "player_position ?s2 = Vector3 NaN playerRadius NaN"
    by (simp_all add: updateObstacles_fields updatePlayer_NaN)
  from animate_frame[OF assms, of None heading] obtain s1 where
    s1: "checkItemCollisions ?s2 = Some s1"
    and a: "animate None heading s =
              Some (snd (requestAnimationFrame Animate (updateCamera (checkObstacleCollisions s1))))"
    by (auto simp: frame_dt_undefined)
  have v1: "velocity s1 = Vector3 NaN NaN NaN"
    using s1 item_loop_velocity v2 by (simp add: checkItemCollisions_def)
  have p1: "player_position s1 = Vector3 NaN playerRadius NaN"
    using item_loop_filter[of "length (items ?s2)" ?s2] s1 p2
    by (auto simp: checkItemCollisions_def)
  have "checkObstacleCollisions s1 = s1"
    unfolding checkObstacleCollisions_def
    by (rule obstacle_loop_miss) (simp add: p1 NaN_position_out_of_range)
  then show ?thesis
    using a v1 p1 by (simp add: updateCamera_fields requestAnimationFrame_fields)
qed

lemma spawnItems_started: "started (spawnItems n s) = started s"
  by (induction n arbitrary: s)
     (simp_all add: randomPoint_def Math_random_def Let_def split: prod.splits)

lemma spawnObstacles_started: "started (spawnObstacles n s) = started s"
  by (induction n arbitrary: s)
     (simp_all add: randomPoint_def Math_random_def Let_def split: prod.splits)

lemma spawnItems_velocity: "velocity (spawnItems n s) = velocity s"
  by (induction n arbitrary: s)
     (simp_all add: randomPoint_def Math_random_def Let_def split: prod.splits)

lemma spawnObstacles_velocity: "velocity (spawnObstacles n s) = velocity s"
  by (induction n arbitrary: s)
     (simp_all add: randomPoint_def Math_random_def Let_def split: prod.splits)

lemma startGame_first_frame:
  assumes "\<not> started s"
  shows "\<exists>s'. startGame heading s = Some s' \<and> velocity s' = Vector3 NaN NaN NaN \<and>
              player_position s' = Vector3 NaN playerRadius NaN"
proof -
  let ?a = "s\<lparr>started := True, score := 0, message := ''Go! Collect cubes!'',
               player_position := Vector3 (Num 0) playerRadius (Num 0),
               velocity := Vector3 (Num 0) (Num 0) (Num 0)\<rparr>"
  let ?b = "if length (items ?a) < ITEM_COUNT
            then spawnItems (ITEM_COUNT - length (items ?a)) ?a else ?a"
  let ?s0 = "?b\<lparr>clock_reads := Suc (clock_reads ?b), lastTime := Some (clock ?b (clock_reads ?b))\<rparr>"
  have run: "startGame heading s = animate None heading ?s0"
    using assms by (simp add: startGame_def Let_def performance_now_def)
  have "started ?s0"
    by (simp add: spawnItems_started)
  from animate_undefined[OF this] show ?thesis
    unfolding run .
qed

lemma page_loaded_fields:
  "\<not> started page_loaded" "velocity page_loaded = Vector3 (Num 0) (Num 0) (Num 0)"
  by (simp_all add: page_loaded_def init_def spawnItems_started spawnObstacles_started
      spawnItems_velocity spawnObstacles_velocity zero_vec_def)

lemma two_hazards_fields:
  "started two_hazards" "lastTime two_hazards = Some (Num 0)"
  "velocity two_hazards = Vector3 (Num 3) (Num 0) (Num 0)"
  "player_position two_hazards = Vector3 (Num 10) playerRadius (Num 0)"
  by (simp_all add: two_hazards_def)

text \<open>
  What a frame leaves of the session's own variables: \<open>lastTime\<close> and \<open>started\<close> are
  written by \<open>animate\<close> and \<open>startGame\<close> only.
\<close>

lemma updatePlayer_session:
  "lastTime (updatePlayer dt heading s) = lastTime s"
  "started (updatePlayer dt heading s) = started s"
  by (simp_all add: updatePlayer_def Let_def split: prod.splits)

lemma updateObstacles_session:
  "lastTime (updateObstacles dt s) = lastTime s"
  "started (updateObstacles dt s) = started s"
  by (simp_all add: updateObstacles_def performance_now_def Let_def)

lemma collect_session:
  "lastTime (collect i s) = lastTime s" "started (collect i s) = started s"
  by (simp_all add: collect_def flashMessage_def setTimeout_def Let_def)

lemma item_loop_session:
  "item_loop n s = Some s' \<Longrightarrow> lastTime s' = lastTime s \<and> started s' = started s"
proof (induction n arbitrary: s)
  case 0
  then show ?case by simp
next
  case (Suc n)
  then show ?case
    by (auto simp: Let_def collect_session split: if_splits)
qed

lemma frame_tail_session:
  "lastTime (snd (requestAnimationFrame cb (updateCamera s))) = lastTime s"
  "started (snd (requestAnimationFrame cb (updateCamera s))) = started s"
  by (simp_all add: requestAnimationFrame_def updateCamera_def Let_def)

text \<open>
  A frame of a running session between two timestamps that are numbers: the step is the
  minimum of 0.05 and the elapsed time over 1000 (200 ms give 0.05, not 0.2), and the frame
  passes it to \<open>updatePlayer\<close> and \<open>updateObstacles\<close>, then runs \<open>checkItemCollisions\<close>,
  \<open>checkObstacleCollisions\<close> and \<open>updateCamera\<close> in this order and requests the next frame.
\<close>

lemma animate_numeric_frame:
  assumes "started s" "lastTime s = Some (Num prev)"
  shows "frame_dt (Some (Num now)) (lastTime s) = Num (min 0.05 ((now - prev) / 1000)) \<and>
         (\<exists>s1. checkItemCollisions
                 (updateObstacles (Num (min 0.05 ((now - prev) / 1000)))
                   (updatePlayer (Num (min 0.05 ((now - prev) / 1000))) heading
                     (s\<lparr>lastTime := Some (Num now)\<rparr>))) = Some s1 \<and>
               animate (Some (Num now)) heading s =
                 Some (snd (requestAnimationFrame Animate
                        (updateCamera (checkObstacleCollisions s1)))))"
  using animate_frame[OF assms(1), of "Some (Num now)" heading]
  unfolding assms(2) by (simp add: frame_dt_numbers)

text \<open>
  The first two frames of a session. \<open>startGame\<close> runs the first one without a timestamp:
  its step is \<open>NaN\<close>, and it stores the missing timestamp in \<open>lastTime\<close>. The second frame,
  whatever its timestamp, subtracts that \<open>undefined\<close> and has the step \<open>NaN\<close> as well.
\<close>

lemma first_frames:
  assumes "\<not> started s"
  shows "\<exists>s0 s1 s'. started s0 \<and> startGame heading s = animate None heading s0 \<and>
           frame_dt None (lastTime s0) = NaN \<and>
           checkItemCollisions
             (updateObstacles NaN (updatePlayer NaN heading (s0\<lparr>lastTime := None\<rparr>))) = Some s1 \<and>
           animate None heading s0 = Some s' \<and>
           started s' \<and> lastTime s' = None \<and>
           frame_dt (Some (Num ts)) (lastTime s') = NaN"
proof -
  let ?a = "s\<lparr>started := True, score := 0, message := ''Go! Collect cubes!'',
               player_position := Vector3 (Num 0) playerRadius (Num 0),
               velocity := Vector3 (Num 0) (Num 0) (Num 0)\<rparr>"
  let ?b = "if length (items ?a) < ITEM_COUNT
            then spawnItems (ITEM_COUNT - length (items ?a)) ?a else ?a"
  let ?s0 = "?b\<lparr>clock_reads := Suc (clock_reads ?b), lastTime := Some (clock ?b (clock_reads ?b))\<rparr>"
  let ?s2 = "updateObstacles NaN (updatePlayer NaN heading (?s0\<lparr>lastTime := None\<rparr>))"
  have run: "startGame heading s = animate None heading ?s0"
    using assms by (simp add: startGame_def Let_def performance_now_def)
  have st: "started ?s0"
    by (simp add: spawnItems_started)
  from animate_frame[OF st, of None heading] obtain s1 where
    s1: "checkItemCollisions ?s2 = Some s1"
    and a: "animate None heading ?s0 =
              Some (snd (requestAnimationFrame Animate (updateCamera (checkObstacleCollisions s1))))"
    by (auto simp: frame_dt_undefined)
  have p2: "player_position ?s2 = Vector3 NaN playerRadius NaN"
    by (simp add: updateObstacles_fields updatePlayer_NaN)
  have p1: "player_position s1 = Vector3 NaN playerRadius NaN"
    using item_loop_filter[of "length (items ?s2)" ?s2] s1 p2
    by (auto simp: checkItemCollisions_def)
  have same: "checkObstacleCollisions s1 = s1"
    unfolding checkObstacleCollisions_def
    by (rule obstacle_loop_miss) (simp add: p1 NaN_position_out_of_range)
  have l1: "lastTime s1 = None \<and> started s1"
    using s1 item_loop_session[of "length (items ?s2)" ?s2 s1] st
    by (simp add: checkItemCollisions_def updateObstacles_session updatePlayer_session)
  let ?s' = "snd (requestAnimationFrame Animate (updateCamera s1))"
  have a': "animate None heading ?s0 = Some ?s'"
    using a by (simp only: same)
  have fin: "started ?s' \<and> lastTime ?s' = None \<and> frame_dt (Some (Num ts)) (lastTime ?s') = NaN"
    using l1 by (simp add: frame_tail_session frame_dt_def)
  have fd: "frame_dt None (lastTime ?s0) = NaN"
    by (rule frame_dt_undefined)
  show ?thesis
    using st run fd s1 a' fin by blast
qed

text \<open>
  Claim C7 at the first two frames of a session. Started from the freshly loaded page,
  \<open>startGame\<close> runs a frame whose step is \<open>NaN\<close>, not a value capped at 0.05, and passes it
  to \<open>updatePlayer\<close> and \<open>updateObstacles\<close>; the session it returns is running with
  \<open>lastTime\<close> undefined, so the frame at timestamp 16 has the step \<open>NaN\<close> too. The order of
  the calls within a frame is as the claim says.
\<close>

theorem first_frames_step_not_capped:
  "\<exists>s0 s1 s'. started s0 \<and> startGame looking_north page_loaded = animate None looking_north s0 \<and>
     frame_dt None (lastTime s0) = NaN \<and>
     \<not> frame_dt None (lastTime s0) \<le> Num 0.05 \<and>
     checkItemCollisions
       (updateObstacles NaN (updatePlayer NaN looking_north (s0\<lparr>lastTime := None\<rparr>))) = Some s1 \<and>
     animate None looking_north s0 = Some s' \<and>
     started s' \<and> lastTime s' = None \<and>
     frame_dt (Some (Num 16)) (lastTime s') = NaN \<and>
     \<not> frame_dt (Some (Num 16)) (lastTime s') \<le> Num 0.05"
proof -
  from first_frames[OF page_loaded_fields(1), of looking_north 16] obtain s0 s1 s' where
    h: "started s0" "startGame looking_north page_loaded = animate None looking_north s0"
      "frame_dt None (lastTime s0) = NaN"
      "checkItemCollisions
         (updateObstacles NaN (updatePlayer NaN looking_north (s0\<lparr>lastTime := None\<rparr>))) = Some s1"
      "animate None looking_north s0 = Some s'" "started s'" "lastTime s' = None"
      "frame_dt (Some (Num 16)) (lastTime s') = NaN"
    by blast
  have n1: "\<not> frame_dt None (lastTime s0) \<le> Num 0.05"
    by (simp add: h(3))
  have n2: "\<not> frame_dt (Some (Num 16)) (lastTime s') \<le> Num 0.05"
    by (simp only: h(8) NaN_compares not_False_eq_True)
  show ?thesis
    using h n1 n2 by blast
qed



subsection \<open>Motion\<close>

text \<open>
  Claim C6. After \<open>updatePlayer\<close> returns, the height of the player is \<open>playerRadius\<close>
  exactly: for every step (non-negative or not, \<open>NaN\<close> included), every state of the keys
  and every camera heading.
\<close>

theorem updatePlayer_height:
  "vy (player_position (updatePlayer dt heading s)) = playerRadius"
  by (simp add: updatePlayer_def Let_def set_x_def set_y_def set_z_def split: prod.splits)

text \<open>
  The stages of \<open>updatePlayer\<close>, for every input. The free movement comes first: the
  velocity \<open>v3\<close> after steering, damping and clamping, and the position \<open>p2\<close> integrated from
  it and pinned to the ground. Containment comes after it and reads \<open>p2\<close>: when the
  horizontal distance \<open>dst\<close> of \<open>p2\<close> exceeds \<open>WORLD_RADIUS\<close>, both horizontal coordinates are
  multiplied by \<open>WORLD_RADIUS / dst\<close> and the velocity by 0.3; otherwise both are kept.
\<close>

lemma updatePlayer_stages:
  fixes dt heading s
  defines "inputZ \<equiv>
      (if keys s ''KeyS'' \<or> keys s ''ArrowDown''
       then (if keys s ''KeyW'' \<or> keys s ''ArrowUp'' then Num 0 - Num 1 else Num 0) + Num 1
       else (if keys s ''KeyW'' \<or> keys s ''ArrowUp'' then Num 0 - Num 1 else Num 0))"
    and "inputX \<equiv>
      (if keys s ''KeyD'' \<or> keys s ''ArrowRight''
       then (if keys s ''KeyA'' \<or> keys s ''ArrowLeft'' then Num 0 - Num 1 else Num 0) + Num 1
       else (if keys s ''KeyA'' \<or> keys s ''ArrowLeft'' then Num 0 - Num 1 else Num 0))"
    and "forward \<equiv> normalize (set_y heading (Num 0))"
  defines "right \<equiv> normalize (crossVectors (Vector3 (Num 0) (Num 1) (Num 0)) forward)"
  defines "force \<equiv>
      addScaledVector (addScaledVector zero_vec forward (inputZ * Num 18)) right (inputX * Num 18)"
  defines "v2 \<equiv>
      multiplyScalar (addScaledVector (velocity s) force dt) (Math_pow 0.8 (dt * Num 10))"
  defines "v3 \<equiv> (if length_vec v2 > Num 10 then setLength v2 (Num 10) else v2)"
  defines "p2 \<equiv> set_y (addScaledVector (player_position s) v3 dt) playerRadius"
  defines "dst \<equiv> horizontal_distance p2"
  shows "velocity (updatePlayer dt heading s) =
           (if dst > WORLD_RADIUS then multiplyScalar v3 (Num 0.3) else v3)"
    and "player_position (updatePlayer dt heading s) =
           (if dst > WORLD_RADIUS
            then Vector3 (vx p2 * (WORLD_RADIUS / dst)) playerRadius (vz p2 * (WORLD_RADIUS / dst))
            else p2)"
  unfolding updatePlayer_def Let_def assms horizontal_distance_def
  by (simp_all split del: if_split cong: if_cong
      add: if_distrib[of "case_prod f" for f] if_distrib[of velocity] if_distrib[of player_position]
        set_x_def set_y_def set_z_def)

text \<open>
  What \<open>updatePlayer\<close> computes when the step, the heading, the velocity and the position
  are numbers.
\<close>

lemma length_vec_Num:
  "length_vec (Vector3 (Num a) (Num b) (Num c)) = Num (sqrt (a * a + b * b + c * c))"
  by (simp add: length_vec_def not_less add_nonneg_nonneg)

lemma normalize_Num:
  "normalize (Vector3 (Num a) (Num b) (Num c)) =
     (let l = sqrt (a * a + b * b + c * c); k = (if l = 0 then 1 else l)
      in Vector3 (Num (a * (1 / k))) (Num (b * (1 / k))) (Num (c * (1 / k))))"
  by (simp add: normalize_def length_vec_Num divideScalar_def multiplyScalar_def Let_def)

lemma normalize_zero: "normalize zero_vec = zero_vec"
  by (simp add: zero_vec_def normalize_Num)

lemma rescale_sum:
  fixes x z d :: real
  assumes "d \<noteq> 0" "d * d = x * x + z * z"
  shows "x * (40 / d) * (x * (40 / d)) + z * (40 / d) * (z * (40 / d)) = 1600"
proof -
  have "x * (40 / d) * (x * (40 / d)) + z * (40 / d) * (z * (40 / d))
        = (x * x + z * z) * 1600 / (d * d)"
    using assms(1) by (simp add: field_simps)
  also have "\<dots> = 1600"
    using assms by (simp flip: assms(2))
  finally show ?thesis .
qed

lemma rescale_on_circle:
  fixes x z :: real
  assumes "40 < sqrt (x * x + z * z)"
  shows "sqrt (x * (40 / sqrt (x * x + z * z)) * (x * (40 / sqrt (x * x + z * z))) +
               z * (40 / sqrt (x * x + z * z)) * (z * (40 / sqrt (x * x + z * z)))) = 40"
proof -
  have "sqrt (x * x + z * z) \<noteq> 0" using assms by linarith
  moreover have "sqrt (x * x + z * z) * sqrt (x * x + z * z) = x * x + z * z"
    by (simp add: add_nonneg_nonneg)
  ultimately have "x * (40 / sqrt (x * x + z * z)) * (x * (40 / sqrt (x * x + z * z))) +
               z * (40 / sqrt (x * x + z * z)) * (z * (40 / sqrt (x * x + z * z))) = 1600"
    by (rule rescale_sum)
  moreover have "sqrt 1600 = 40"
    by (rule real_sqrt_unique) simp_all
  ultimately show ?thesis by simp
qed

lemma updatePlayer_numeric:
  assumes dt: "dt = Num d"
    and h: "vx heading = Num hx" "vz heading = Num hz"
    and v: "velocity s = Vector3 (Num a) (Num b) (Num c)"
    and p: "player_position s = Vector3 (Num px) (Num py) (Num pz)"
  shows "\<exists>a' b' c' qx qz.
           velocity (updatePlayer dt heading s) = Vector3 (Num a') (Num b') (Num c') \<and>
           (b = 0 \<longrightarrow> b' = 0) \<and>
           player_position (updatePlayer dt heading s) = Vector3 (Num qx) playerRadius (Num qz) \<and>
           sqrt (qx * qx + qz * qz) \<le> 40"
proof -
  define inputZ where "inputZ =
      (if keys s ''KeyS'' \<or> keys s ''ArrowDown''
       then (if keys s ''KeyW'' \<or> keys s ''ArrowUp'' then Num 0 - Num 1 else Num 0) + Num 1
       else (if keys s ''KeyW'' \<or> keys s ''ArrowUp'' then Num 0 - Num 1 else Num 0))"
  define inputX where "inputX =
      (if keys s ''KeyD'' \<or> keys s ''ArrowRight''
       then (if keys s ''KeyA'' \<or> keys s ''ArrowLeft'' then Num 0 - Num 1 else Num 0) + Num 1
       else (if keys s ''KeyA'' \<or> keys s ''ArrowLeft'' then Num 0 - Num 1 else Num 0))"
  define forward where "forward = normalize (set_y heading (Num 0))"
  define right where "right = normalize (crossVectors (Vector3 (Num 0) (Num 1) (Num 0)) forward)"
  define force where
    "force = addScaledVector (addScaledVector zero_vec forward (inputZ * Num 18)) right (inputX * Num 18)"
  define v2 where
    "v2 = multiplyScalar (addScaledVector (velocity s) force dt) (Math_pow 0.8 (dt * Num 10))"
  define v3 where "v3 = (if length_vec v2 > Num 10 then setLength v2 (Num 10) else v2)"
  define p2 where "p2 = set_y (addScaledVector (player_position s) v3 dt) playerRadius"
  define dst where "dst = Math_sqrt (vx p2 * vx p2 + vz p2 * vz p2)"
  note defs = inputZ_def inputX_def forward_def right_def force_def v2_def v3_def p2_def dst_def
  have vel: "velocity (updatePlayer dt heading s) =
           (if dst > WORLD_RADIUS then multiplyScalar v3 (Num 0.3) else v3)"
    and pos: "player_position (updatePlayer dt heading s) =
           (if dst > WORLD_RADIUS
            then set_z (set_x p2 (vx p2 * (WORLD_RADIUS / dst))) (vz p2 * (WORLD_RADIUS / dst))
            else p2)"
    unfolding updatePlayer_def Let_def defs
    by (simp_all split del: if_split cong: if_cong
        add: if_distrib[of "case_prod f" for f] if_distrib[of velocity] if_distrib[of player_position])
  have "\<exists>iz. inputZ = Num iz" "\<exists>ix. inputX = Num ix"
    by (simp_all add: inputZ_def inputX_def)
  then obtain iz ix where iz: "inputZ = Num iz" and ix: "inputX = Num ix"
    by blast
  have sy: "set_y heading (Num 0) = Vector3 (Num hx) (Num 0) (Num hz)"
    using h by (simp add: set_y_def)
  have "\<exists>fx fz. forward = Vector3 (Num fx) (Num 0) (Num fz)"
    unfolding forward_def sy normalize_Num Let_def by simp
  then obtain fx fz where fw: "forward = Vector3 (Num fx) (Num 0) (Num fz)"
    by blast
  have "\<exists>rx rz. right = Vector3 (Num rx) (Num 0) (Num rz)"
    unfolding right_def fw by (simp add: crossVectors_def normalize_Num Let_def)
  then obtain rx rz where rt: "right = Vector3 (Num rx) (Num 0) (Num rz)"
    by blast
  have "\<exists>gx gz. force = Vector3 (Num gx) (Num 0) (Num gz)"
    unfolding force_def fw rt iz ix by (simp add: addScaledVector_def zero_vec_def)
  then obtain gx gz where fc: "force = Vector3 (Num gx) (Num 0) (Num gz)"
    by blast
  have "\<exists>a2 c2 k. v2 = Vector3 (Num a2) (Num (b * k)) (Num c2)"
    unfolding v2_def v fc dt by (simp add: addScaledVector_def multiplyScalar_def)
  then obtain a2 c2 k where v2: "v2 = Vector3 (Num a2) (Num (b * k)) (Num c2)"
    by blast
  have "\<exists>a3 b3 c3. v3 = Vector3 (Num a3) (Num b3) (Num c3) \<and> (b = 0 \<longrightarrow> b3 = 0)"
    unfolding v3_def v2
    by (simp add: setLength_def normalize_Num length_vec_Num multiplyScalar_def Let_def)
  then obtain a3 b3 c3 where v3: "v3 = Vector3 (Num a3) (Num b3) (Num c3)" and b3: "b = 0 \<longrightarrow> b3 = 0"
    by blast
  have "\<exists>qx qz. p2 = Vector3 (Num qx) playerRadius (Num qz)"
    unfolding p2_def p v3 dt by (simp add: addScaledVector_def set_y_def)
  then obtain qx qz where p2: "p2 = Vector3 (Num qx) playerRadius (Num qz)"
    by blast
  let ?d = "sqrt (qx * qx + qz * qz)"
  have dst: "dst = Num ?d"
    unfolding dst_def p2 by (simp add: not_less add_nonneg_nonneg)
  show ?thesis
  proof (cases "dst > WORLD_RADIUS")
    case True
    then have big: "40 < ?d" by (simp add: dst WORLD_RADIUS_def)
    then have nz: "?d \<noteq> 0" by linarith
    have ve: "velocity (updatePlayer dt heading s) =
        Vector3 (Num (a3 * 0.3)) (Num (b3 * 0.3)) (Num (c3 * 0.3))"
      using True by (simp add: vel v3 multiplyScalar_def)
    have po: "player_position (updatePlayer dt heading s) =
        Vector3 (Num (qx * (40 / ?d))) playerRadius (Num (qz * (40 / ?d)))"
      using True nz unfolding pos p2 dst by (simp add: set_x_def set_z_def WORLD_RADIUS_def)
    show ?thesis
    proof (intro exI conjI)
      show "velocity (updatePlayer dt heading s) =
        Vector3 (Num (a3 * 0.3)) (Num (b3 * 0.3)) (Num (c3 * 0.3))"
        by (rule ve)
      show "b = 0 \<longrightarrow> b3 * 0.3 = 0"
        using b3 by simp
      show "player_position (updatePlayer dt heading s) =
        Vector3 (Num (qx * (40 / ?d))) playerRadius (Num (qz * (40 / ?d)))"
        by (rule po)
      show "sqrt (qx * (40 / ?d) * (qx * (40 / ?d)) + qz * (40 / ?d) * (qz * (40 / ?d))) \<le> 40"
        by (simp only: rescale_on_circle[OF big] order_refl)
    qed
  next
    case False
    then have small: "?d \<le> 40" by (simp add: dst WORLD_RADIUS_def)
    show ?thesis
    proof (intro exI conjI)
      show "velocity (updatePlayer dt heading s) = Vector3 (Num a3) (Num b3) (Num c3)"
        using False by (simp add: vel v3)
      show "b = 0 \<longrightarrow> b3 = 0"
        by (rule b3)
      show "player_position (updatePlayer dt heading s) = Vector3 (Num qx) playerRadius (Num qz)"
        using False by (simp add: pos p2)
      show "?d \<le> 40"
        by (rule small)
    qed
  qed
qed

text \<open>
  Claim C8. Normalizing the zero vector gives the zero vector. When the camera heading has
  no ground-plane component, the forward vector and the right vector derived from it are
  both the zero vector. For every step, heading, velocity and position that are numbers,
  whatever the keys, \<open>updatePlayer\<close> returns a velocity and a position whose components
  are numbers: no division by zero occurs on the way.
\<close>

theorem motion_update_total:
  assumes "is_num dt" "is_num (vx heading)" "is_num (vz heading)"
    "finite_vec (velocity s)" "finite_vec (player_position s)"
  shows "normalize zero_vec = zero_vec \<and>
         (vx heading = Num 0 \<and> vz heading = Num 0 \<longrightarrow>
            normalize (set_y heading (Num 0)) = zero_vec \<and>
            normalize (crossVectors (Vector3 (Num 0) (Num 1) (Num 0))
              (normalize (set_y heading (Num 0)))) = zero_vec) \<and>
         finite_vec (velocity (updatePlayer dt heading s)) \<and>
         finite_vec (player_position (updatePlayer dt heading s))"
proof -
  obtain d hx hz where n: "dt = Num d" "vx heading = Num hx" "vz heading = Num hz"
    using assms(1-3) by (auto simp: is_num_conv)
  obtain a b c where v: "velocity s = Vector3 (Num a) (Num b) (Num c)"
    using assms(4) by (rule finite_vecE)
  obtain px py pz where p: "player_position s = Vector3 (Num px) (Num py) (Num pz)"
    using assms(5) by (rule finite_vecE)
  have z: "vx heading = Num 0 \<and> vz heading = Num 0 \<longrightarrow>
            normalize (set_y heading (Num 0)) = zero_vec \<and>
            normalize (crossVectors (Vector3 (Num 0) (Num 1) (Num 0))
              (normalize (set_y heading (Num 0)))) = zero_vec"
    by (simp add: set_y_def normalize_Num crossVectors_def zero_vec_def)
  from updatePlayer_numeric[OF n v p] have
    "finite_vec (velocity (updatePlayer dt heading s)) \<and>
     finite_vec (player_position (updatePlayer dt heading s))"
    by (auto simp: playerRadius_def)
  then show ?thesis
    using z normalize_zero by blast
qed

text \<open>The sample session with the camera looking straight down.\<close>

theorem motion_update_total_witness:
  "is_num (Num 0.05) \<and> is_num (vx looking_down) \<and> is_num (vz looking_down) \<and>
   finite_vec (velocity two_hazards) \<and> finite_vec (player_position two_hazards) \<and>
   vx looking_down = Num 0 \<and> vz looking_down = Num 0 \<and>
   normalize (set_y looking_down (Num 0)) = zero_vec \<and>
   normalize (crossVectors (Vector3 (Num 0) (Num 1) (Num 0))
     (normalize (set_y looking_down (Num 0)))) = zero_vec \<and>
   finite_vec (velocity (updatePlayer (Num 0.05) looking_down two_hazards)) \<and>
   finite_vec (player_position (updatePlayer (Num 0.05) looking_down two_hazards))"
proof -
  have h: "is_num (Num 0.05)" "is_num (vx looking_down)" "is_num (vz looking_down)"
    "finite_vec (velocity two_hazards)" "finite_vec (player_position two_hazards)"
    by (simp_all add: looking_down_def two_hazards_fields playerRadius_def)
  have z: "vx looking_down = Num 0" "vz looking_down = Num 0"
    by (simp_all add: looking_down_def)
  show ?thesis
    using motion_update_total[OF h] h z by blast
qed

text \<open>
  For numbers the player stays inside the arena and the velocity stays horizontal. Both
  fail for the step \<open>NaN\<close> of a session's first frame, as the two theorems after them show.
\<close>

lemma updatePlayer_contained:
  assumes "is_num dt" "is_num (vx heading)" "is_num (vz heading)"
    "finite_vec (velocity s)" "finite_vec (player_position s)"
  shows "horizontal_distance (player_position (updatePlayer dt heading s)) \<le> WORLD_RADIUS"
proof -
  obtain d hx hz where n: "dt = Num d" "vx heading = Num hx" "vz heading = Num hz"
    using assms(1-3) by (auto simp: is_num_conv)
  obtain a b c where v: "velocity s = Vector3 (Num a) (Num b) (Num c)"
    using assms(4) by (rule finite_vecE)
  obtain px py pz where p: "player_position s = Vector3 (Num px) (Num py) (Num pz)"
    using assms(5) by (rule finite_vecE)
  from updatePlayer_numeric[OF n v p] show ?thesis
    by (auto simp: horizontal_distance_def WORLD_RADIUS_def not_less add_nonneg_nonneg)
qed

lemma updatePlayer_keeps_velocity_horizontal:
  assumes "is_num dt" "is_num (vx heading)" "is_num (vz heading)"
    "is_num (vx (velocity s))" "vy (velocity s) = Num 0" "is_num (vz (velocity s))"
    "finite_vec (player_position s)"
  shows "vy (velocity (updatePlayer dt heading s)) = Num 0"
proof -
  obtain d hx hz where n: "dt = Num d" "vx heading = Num hx" "vz heading = Num hz"
    using assms(1-3) by (auto simp: is_num_conv)
  obtain a c where v: "velocity s = Vector3 (Num a) (Num 0) (Num c)"
    using assms(4-6) by (cases "velocity s") (auto simp: is_num_conv)
  obtain px py pz where p: "player_position s = Vector3 (Num px) (Num py) (Num pz)"
    using assms(7) by (rule finite_vecE)
  from updatePlayer_numeric[OF n v p] show ?thesis
    by auto
qed

text \<open>
  Claim C5 at the first frame of a session. Started from the freshly loaded page, the
  player's horizontal distance from the centre is \<open>NaN\<close> when \<open>startGame\<close> returns, so it is
  not at most \<open>WORLD_RADIUS\<close>: the test \<open>dist > WORLD_RADIUS\<close> is false for \<open>NaN\<close> and the
  containment step does nothing.
\<close>

theorem first_frame_leaves_arena:
  "\<exists>s'. startGame looking_north page_loaded = Some s' \<and>
        horizontal_distance (player_position s') = NaN \<and>
        \<not> horizontal_distance (player_position s') \<le> WORLD_RADIUS"
  using startGame_first_frame[OF page_loaded_fields(1), of looking_north]
  by (auto simp: horizontal_distance_def)

text \<open>
  Claim C10 at the first frame of a session. The velocity of the freshly loaded page has
  vertical component 0; when \<open>startGame\<close> returns it is \<open>NaN\<close>.
\<close>

theorem first_frame_velocity_not_horizontal:
  "vy (velocity page_loaded) = Num 0 \<and>
   (\<exists>s'. startGame looking_north page_loaded = Some s' \<and> vy (velocity s') = NaN)"
  using startGame_first_frame[OF page_loaded_fields(1), of looking_north]
  by (auto simp: page_loaded_fields)

subsection \<open>Camera shake\<close>

text \<open>
  A shake that is not interrupted ends where it began: \<open>shakeCamera\<close> queues a tick that
  remembers the camera position of the request, and the tick that finds the duration
  elapsed puts the camera back there.
\<close>

lemma tick_completes:
  assumes "clock s (clock_reads s) = Num now" "tick_start c = Num st" "tick_ms c = Num m"
    "0 < m" "m \<le> now - st"
  shows "camera_position (tick c s) = tick_orig c"
    and "frame_callbacks (tick c s) = frame_callbacks s"
  using assms by (simp_all add: tick_def performance_now_def Let_def)

lemma shakeCamera_pending:
  assumes "clock s (clock_reads s) = Num st" "clock s (Suc (clock_reads s)) = Num now"
    "0 < m" "now - st < m"
  shows "frame_callbacks (shakeCamera amount (Num m) s) =
           filter (\<lambda>e. fst e \<noteq> shakeTimeout s) (frame_callbacks s) @
           [(next_handle s,
             Tick \<lparr>tick_start = Num st, tick_orig = camera_position s, tick_amount = amount,
                   tick_ms = Num m\<rparr>)]"
    and "shakeTimeout (shakeCamera amount (Num m) s) = next_handle s"
  using assms
  by (simp_all add: shakeCamera_def tick_def performance_now_def Math_random_def
      cancelAnimationFrame_def requestAnimationFrame_def Let_def)

text \<open>
  Claim C1 at two overlapping requests. The camera of the sample session rests at
  \<open>(0, 8, 12)\<close>. A first \<open>shakeCamera(0.35, 350)\<close> at time 0 queues its tick under handle 2;
  a second one at time 100 cancels that tick and queues its own under handle 3, with the
  displaced position \<open>(-0.175, 7.825, 11.825)\<close> as its origin. When that tick runs at time
  500 the shake is over, and the camera is left at the displaced position, not at
  \<open>(0, 8, 12)\<close>.
\<close>

theorem overlapping_shakes_leave_offset:
  "camera_position two_shakes = Vector3 (Num 0) (Num 8) (Num 12) \<and>
   frame_callbacks (shakeCamera (Num 0.35) (Num 350) two_shakes) =
     [(1, Animate),
      (2, Tick \<lparr>tick_start = Num 0, tick_orig = Vector3 (Num 0) (Num 8) (Num 12),
                tick_amount = Num 0.35, tick_ms = Num 350\<rparr>)] \<and>
   frame_callbacks (shakeCamera (Num 0.35) (Num 350) (shakeCamera (Num 0.35) (Num 350) two_shakes)) =
     [(1, Animate),
      (3, Tick \<lparr>tick_start = Num 100, tick_orig = Vector3 (Num (- 0.175)) (Num 7.825) (Num 11.825),
                tick_amount = Num 0.35, tick_ms = Num 350\<rparr>)] \<and>
   (\<exists>s'. run_callback 3 (Num 500) (Vector3 (Num 0) (Num 0) (Num (- 1)))
           (shakeCamera (Num 0.35) (Num 350) (shakeCamera (Num 0.35) (Num 350) two_shakes)) = Some s' \<and>
         camera_position s' = Vector3 (Num (- 0.175)) (Num 7.825) (Num 11.825) \<and>
         camera_position s' \<noteq> camera_position two_shakes \<and>
         frame_callbacks s' = [(1, Animate)])"
  by (simp add: two_shakes_def shakeCamera_def tick_def performance_now_def Math_random_def
      cancelAnimationFrame_def requestAnimationFrame_def run_callback_def Let_def
      set_x_def set_y_def set_z_def)

end
